theory Spec2Isabelle
  imports Main
begin

section \<open>Values, documents and the store\<close>

text \<open>
  The handlers of \<^verbatim>\<open>src/routes/home.js\<close> are embedded as pure functions. Conventions:
  \<^item> a JSON value of a request body is a \<open>jsval\<close>; JavaScript truthiness is \<open>truthy\<close>;
  \<^item> body fields that the handlers only test for presence and hand on are typed
    \<open>string option\<close> (\<open>None\<close> is an absent field), so \<open>!x\<close> is \<open>\<not> truthyStr x\<close>;
  \<^item> strings are byte sequences (UTF-8);
  \<^item> an identifier of the store (an ObjectId) is written as 24 hexadecimal digits
    (\<open>isObjectId\<close>). Every lookup or filter by \<^verbatim>\<open>_id\<close> casts the strings it is given
    and throws \<^verbatim>\<open>CastError\<close> on any other string, before the store is reached;
  \<^item> \<open>assignedUser\<close> of a task is an ObjectId field (\<^verbatim>\<open>TaskSchema\<close>). In the model
    the stored value is the identifier's string, or empty when the field holds nothing.
    Read back with \<^verbatim>\<open>lean()\<close> it is an object, never strictly equal to a string
    (\<open>strictlyDiffer\<close>); an update that sets it to the empty string throws
    \<^verbatim>\<open>CastError\<close> (\<open>taskUpdateMany\<close>);
  \<^item> \<open>completed\<close> of a stored task is kept as the raw stored value (\<open>completedRaw\<close>:
    a boolean, null or absent); \<open>completed\<close> is its truthiness;
  \<^item> a collection is the list of its documents;
  \<^item> every handler returns its response together with the store writes that took
    effect, in the order the handler awaits them (\<open>db_op list\<close>); \<open>runOps\<close> executes
    them. A call that throws before the store is reached leaves no write. All reads of a
    handler come before the results of its own writes could matter;
  \<^item> the calls that persist a whole document (\<open>save\<close>, \<open>findByIdAndUpdate\<close> with
    \<open>overwrite\<close>) run the schema casts and validators of the storage library; each is a
    parameter of its handler that returns the stored document or a \<open>store_err\<close>;
  \<^item> the deadline is carried as the raw body value: parsing it as a date is floating
    point and calendar arithmetic and is left to the persisting parameter.
\<close>

datatype jsval =
    JUndefined
  | JNull
  | JBool bool
  | JNum int
  | JStr string
  | JArr "jsval list"
  | JObj "(string \<times> jsval) list"

fun truthy :: "jsval \<Rightarrow> bool" where
  "truthy JUndefined = False"
| "truthy JNull = False"
| "truthy (JBool b) = b"
| "truthy (JNum n) = (n \<noteq> 0)"
| "truthy (JStr s) = (s \<noteq> [])"
| "truthy (JArr xs) = True"
| "truthy (JObj kvs) = True"

definition truthyStr :: "string option \<Rightarrow> bool" where
  "truthyStr x = (case x of None \<Rightarrow> False | Some s \<Rightarrow> s \<noteq> [])"

text \<open>\<^verbatim>\<open>x || ""\<close> for a string or absent \<open>x\<close>; also the value of a field known to be truthy.\<close>

definition orEmpty :: "string option \<Rightarrow> string" where
  "orEmpty x = (case x of None \<Rightarrow> [] | Some s \<Rightarrow> s)"

subsection \<open>Identifiers\<close>

definition isHexDigit :: "char \<Rightarrow> bool" where
  "isHexDigit c =
     (let n = (of_char c :: nat)
      in (48 \<le> n \<and> n \<le> 57) \<or> (97 \<le> n \<and> n \<le> 102) \<or> (65 \<le> n \<and> n \<le> 70))"

definition isObjectId :: "string \<Rightarrow> bool" where
  "isObjectId s = (length s = 24 \<and> list_all isHexDigit s)"

text \<open>
  \<^verbatim>\<open>oldUserId !== newUserId\<close> in PUT /tasks/:id: \<open>oldUserId\<close> is the stored ObjectId
  (an object) or, when the task has no user, the empty string; \<open>newUserId\<close> is a string
  of the body or the empty string. An object and a string are never strictly equal.
\<close>

definition strictlyDiffer :: "string \<Rightarrow> string \<Rightarrow> bool" where
  "strictlyDiffer oldUserId newUserId = (oldUserId \<noteq> [] \<or> newUserId \<noteq> [])"

subsection \<open>Documents\<close>

record user =
  uid :: string
  uname :: string
  email :: string
  pendingTasks :: "string list"

record task =
  tid :: string
  tname :: string
  description :: string
  deadline :: jsval
  completedRaw :: jsval
  assignedUser :: string
  assignedUserName :: string

definition completed :: "task \<Rightarrow> bool" where
  "completed t = truthy (completedRaw t)"

record db =
  users :: "user list"
  tasks :: "task list"

definition findUser :: "db \<Rightarrow> string \<Rightarrow> user option" where
  "findUser d i = find (\<lambda>u. uid u = i) (users d)"

definition findTask :: "db \<Rightarrow> string \<Rightarrow> task option" where
  "findTask d i = find (\<lambda>t. tid t = i) (tasks d)"

text \<open>What a call can throw, as far as the \<^verbatim>\<open>catch\<close> blocks tell them apart.\<close>

datatype store_err =
    CastError
  | ValidationErr
  | DuplicateKey
  | ServerSelection
  | SyntaxErr
  | TypeErr
  | OtherErr

text \<open>\<^verbatim>\<open>User.findById(id)\<close> and \<^verbatim>\<open>Task.findById(id)\<close>: the cast comes first.\<close>

definition userFindById :: "db \<Rightarrow> string \<Rightarrow> store_err + user option" where
  "userFindById d i = (if isObjectId i then Inr (findUser d i) else Inl CastError)"

definition taskFindById :: "db \<Rightarrow> string \<Rightarrow> store_err + task option" where
  "taskFindById d i = (if isObjectId i then Inr (findTask d i) else Inl CastError)"

subsection \<open>Request bodies\<close>


text \<open>\<open>ub_pendingTasks = None\<close>: the field is absent or not an array.\<close>

record user_repl =
  ur_name :: "string option"
  ur_email :: "string option"
  ur_pendingTasks :: "string list"

record task_body =
  tb_name :: "string option"
  tb_description :: "string option"
  tb_deadline :: jsval
  tb_completed :: jsval
  tb_assignedUser :: "string option"
  tb_assignedUserName :: "string option"

subsection \<open>Responses\<close>

datatype message =
    MsgOK
  | MsgRequiredFields
  | MsgCompletedTasks "string list"
  | MsgUserNotFound
  | MsgTaskNotFound
  | MsgAssignedUserMissing
  | MsgNameMismatch
  | MsgMustBeUnassigned
  | MsgAlreadyCompleted
  | MsgUserReplaced
  | MsgUserDeleted
  | MsgTaskCreated
  | MsgTaskReplaced
  | MsgInvalidId
  | MsgStoreValidation
  | MsgEmailInUse
  | MsgDbConnection
  | MsgInternal
  | MsgBadQuery

datatype payload =
    PNull
  | PUser user
  | PTask task
  | PUsers "user list"
  | PTasks "task list"
  | PCount nat

record response =
  status :: nat
  message :: message
  payload :: payload

definition respond :: "nat \<Rightarrow> message \<Rightarrow> payload \<Rightarrow> response" where
  "respond c m p = \<lparr>status = c, message = m, payload = p\<rparr>"




subsection \<open>Store writes\<close>

datatype db_op =
    UserFindByIdAndDelete string
  | TaskUpdateManySet "string list" string string
  | UserPull string string
  | UserAddToSet string string
  | UserOverwrite string user_repl user
  | TaskSave task task
  | TaskOverwrite string task_body task

fun updateFirst :: "('a \<Rightarrow> bool) \<Rightarrow> ('a \<Rightarrow> 'a) \<Rightarrow> 'a list \<Rightarrow> 'a list" where
  "updateFirst P f [] = []"
| "updateFirst P f (x # xs) = (if P x then f x # xs else x # updateFirst P f xs)"

fun removeFirst :: "('a \<Rightarrow> bool) \<Rightarrow> 'a list \<Rightarrow> 'a list" where
  "removeFirst P [] = []"
| "removeFirst P (x # xs) = (if P x then xs else x # removeFirst P xs)"

text \<open>\<^verbatim>\<open>$pull\<close> removes every occurrence; \<^verbatim>\<open>$addToSet\<close> appends unless present.\<close>

definition pull :: "string \<Rightarrow> string list \<Rightarrow> string list" where
  "pull t xs = filter (\<lambda>x. x \<noteq> t) xs"

definition addToSet :: "string \<Rightarrow> string list \<Rightarrow> string list" where
  "addToSet t xs = (if t \<in> set xs then xs else xs @ [t])"

fun exec_op :: "db_op \<Rightarrow> db \<Rightarrow> db" where
  "exec_op (UserFindByIdAndDelete i) d =
     d\<lparr>users := removeFirst (\<lambda>u. uid u = i) (users d)\<rparr>"
| "exec_op (TaskUpdateManySet ids au aun) d =
     d\<lparr>tasks := map (\<lambda>t. if tid t \<in> set ids
                            then t\<lparr>assignedUser := au, assignedUserName := aun\<rparr> else t)
                     (tasks d)\<rparr>"
| "exec_op (UserPull i t) d =
     d\<lparr>users := updateFirst (\<lambda>u. uid u = i)
                   (\<lambda>u. u\<lparr>pendingTasks := pull t (pendingTasks u)\<rparr>) (users d)\<rparr>"
| "exec_op (UserAddToSet i t) d =
     d\<lparr>users := updateFirst (\<lambda>u. uid u = i)
                   (\<lambda>u. u\<lparr>pendingTasks := addToSet t (pendingTasks u)\<rparr>) (users d)\<rparr>"
| "exec_op (UserOverwrite i r u') d =
     d\<lparr>users := updateFirst (\<lambda>u. uid u = i) (\<lambda>u. u') (users d)\<rparr>"
| "exec_op (TaskSave new saved) d = d\<lparr>tasks := tasks d @ [saved]\<rparr>"
| "exec_op (TaskOverwrite i r t') d =
     d\<lparr>tasks := updateFirst (\<lambda>t. tid t = i) (\<lambda>t. t') (tasks d)\<rparr>"

definition runOps :: "db_op list \<Rightarrow> db \<Rightarrow> db" where
  "runOps ops d = foldl (\<lambda>s op. exec_op op s) d ops"




section \<open>PUT /users/:id\<close>






section \<open>DELETE /users/:id\<close>



section \<open>POST /tasks\<close>

text \<open>The \<^verbatim>\<open>catch\<close> block of POST /tasks has no branch for \<^verbatim>\<open>CastError\<close>.\<close>

definition catchPostTask :: "store_err \<Rightarrow> response" where
  "catchPostTask e =
     (if e = ValidationErr then respond 400 MsgStoreValidation PNull
      else if e = ServerSelection then respond 500 MsgDbConnection PNull
      else respond 500 MsgInternal PNull)"

text \<open>\<^verbatim>\<open>const completedStatus = (req.body.completed === 'true');\<close>\<close>

definition completedOnCreate :: "jsval \<Rightarrow> bool" where
  "completedOnCreate c = (c = JStr ''true'')"

text \<open>The check of the assigned user on create: the valid user name, or the response.\<close>

definition checkAssignedCreate :: "db \<Rightarrow> task_body \<Rightarrow> response + string" where
  "checkAssignedCreate d body =
     (if truthyStr (tb_assignedUser body)
      then (case userFindById d (orEmpty (tb_assignedUser body)) of
              Inl e \<Rightarrow> Inl (catchPostTask e)
            | Inr None \<Rightarrow> Inl (respond 404 MsgAssignedUserMissing PNull)
            | Inr (Some u) \<Rightarrow>
                if tb_assignedUserName body \<noteq> Some (uname u)
                then Inl (respond 400 MsgNameMismatch PNull)
                else Inr (uname u))
      else Inr ''unassigned'')"

definition newTaskOf :: "task_body \<Rightarrow> string \<Rightarrow> task" where
  "newTaskOf body validUserName =
     \<lparr>tid = [],
      tname = orEmpty (tb_name body),
      description = orEmpty (tb_description body),
      deadline = tb_deadline body,
      completedRaw = JBool (completedOnCreate (tb_completed body)),
      assignedUser = orEmpty (tb_assignedUser body),
      assignedUserName = validUserName\<rparr>"

text \<open>The compensation after \<^verbatim>\<open>save\<close>: add the task to its user's pending list.\<close>

definition createCompensation :: "task \<Rightarrow> db_op list" where
  "createCompensation savedTask =
     (if assignedUser savedTask \<noteq> [] \<and> \<not> completed savedTask
      then [UserAddToSet (assignedUser savedTask) (tid savedTask)]
      else [])"

definition postTask ::
  "(task \<Rightarrow> store_err + task) \<Rightarrow> db \<Rightarrow> task_body \<Rightarrow> response \<times> db_op list" where
  "postTask save d body =
     (if \<not> truthyStr (tb_name body) \<or> \<not> truthy (tb_deadline body)
      then (respond 400 MsgRequiredFields PNull, [])
      else
        case checkAssignedCreate d body of
          Inl r \<Rightarrow> (r, [])
        | Inr validUserName \<Rightarrow>
            let newTask = newTaskOf body validUserName
            in case save newTask of
                 Inl e \<Rightarrow> (catchPostTask e, [])
               | Inr savedTask \<Rightarrow>
                   (respond 201 MsgTaskCreated (PTask savedTask),
                    TaskSave newTask savedTask # createCompensation savedTask))"

section \<open>PUT /tasks/:id\<close>

definition catchPutTask :: "store_err \<Rightarrow> response" where
  "catchPutTask e =
     (if e = CastError then respond 400 MsgInvalidId PNull
      else if e = ValidationErr then respond 400 MsgStoreValidation PNull
      else if e = ServerSelection then respond 500 MsgDbConnection PNull
      else respond 500 MsgInternal PNull)"

text \<open>
  \<^verbatim>\<open>let completedStatus = req.body.completed;
  if (typeof req.body.completed === 'string') completedStatus = (req.body.completed === 'true');\<close>
\<close>

definition completedOnReplace :: "jsval \<Rightarrow> jsval" where
  "completedOnReplace c = (case c of JStr s \<Rightarrow> JBool (s = ''true'') | _ \<Rightarrow> c)"

text \<open>The check of the assigned user on replace: \<open>None\<close> when it passes.\<close>

definition checkAssignedReplace :: "db \<Rightarrow> task_body \<Rightarrow> response option" where
  "checkAssignedReplace d body =
     (if truthyStr (tb_assignedUser body)
      then (case userFindById d (orEmpty (tb_assignedUser body)) of
              Inl e \<Rightarrow> Some (catchPutTask e)
            | Inr None \<Rightarrow> Some (respond 404 MsgAssignedUserMissing PNull)
            | Inr (Some u) \<Rightarrow>
                if tb_assignedUserName body \<noteq> Some (uname u)
                then Some (respond 400 MsgNameMismatch PNull)
                else None)
      else
        if truthyStr (tb_assignedUserName body)
           \<and> tb_assignedUserName body \<noteq> Some ''unassigned''
        then Some (respond 400 MsgMustBeUnassigned PNull)
        else None)"

definition replacementOf :: "task_body \<Rightarrow> task_body" where
  "replacementOf body = body\<lparr>tb_deadline := tb_deadline body,
                             tb_completed := completedOnReplace (tb_completed body)\<rparr>"

text \<open>Case 1 of the handler: \<^verbatim>\<open>if (oldUserId !== newUserId)\<close>.\<close>

definition userChangeOps :: "string \<Rightarrow> string \<Rightarrow> jsval \<Rightarrow> string \<Rightarrow> db_op list" where
  "userChangeOps oldUserId newUserId nowCompleted taskId =
     (if strictlyDiffer oldUserId newUserId
      then (if oldUserId \<noteq> [] then [UserPull oldUserId taskId] else []) @
           (if newUserId \<noteq> [] \<and> \<not> truthy nowCompleted
            then [UserAddToSet newUserId taskId] else [])
      else [])"

text \<open>
  Case 2 of the handler: \<^verbatim>\<open>if (wasCompleted !== nowCompleted && (newUserId || oldUserId))\<close>,
  on the raw stored value and the raw value of the replacement.
\<close>

definition completionChangeOps ::
  "jsval \<Rightarrow> jsval \<Rightarrow> string \<Rightarrow> string \<Rightarrow> string \<Rightarrow> db_op list" where
  "completionChangeOps wasCompleted nowCompleted oldUserId newUserId taskId =
     (if wasCompleted \<noteq> nowCompleted \<and> (newUserId \<noteq> [] \<or> oldUserId \<noteq> [])
      then let relevantUserId = (if newUserId \<noteq> [] then newUserId else oldUserId)
           in if truthy nowCompleted
              then [UserPull relevantUserId taskId]
              else [UserAddToSet relevantUserId taskId]
      else [])"

definition putTask ::
  "(string \<Rightarrow> task_body \<Rightarrow> store_err + task) \<Rightarrow> db \<Rightarrow> string \<Rightarrow> task_body
     \<Rightarrow> response \<times> db_op list" where
  "putTask persist d i body =
     (if \<not> truthyStr (tb_name body) \<or> \<not> truthy (tb_deadline body)
      then (respond 400 MsgRequiredFields PNull, [])
      else
        case checkAssignedReplace d body of
          Some r \<Rightarrow> (r, [])
        | None \<Rightarrow>
            let replacementData = replacementOf body
            in case taskFindById d i of
                 Inl e \<Rightarrow> (catchPutTask e, [])
               | Inr None \<Rightarrow> (respond 404 MsgTaskNotFound PNull, [])
               | Inr (Some oldTask) \<Rightarrow>
                   if completed oldTask
                   then (respond 400 MsgAlreadyCompleted PNull, [])
                   else
                     let oldUserId = assignedUser oldTask;
                         newUserId = orEmpty (tb_assignedUser replacementData);
                         wasCompleted = completedRaw oldTask;
                         nowCompleted = tb_completed replacementData;
                         comp =
                           userChangeOps oldUserId newUserId nowCompleted (tid oldTask) @
                           completionChangeOps wasCompleted nowCompleted oldUserId newUserId
                             (tid oldTask)
                     in case persist i replacementData of
                          Inl e \<Rightarrow> (catchPutTask e, comp)
                        | Inr updatedTask \<Rightarrow>
                            (respond 200 MsgTaskReplaced (PTask updatedTask),
                             comp @ [TaskOverwrite i replacementData updatedTask]))"

section \<open>The query interpreter\<close>

text \<open>
  A query parameter is a string, except that GET /tasks stores the number 100 as the
  default limit (\<open>QHundred\<close>). The result of \<^verbatim>\<open>parseInt\<close> is a double: an integer
  of magnitude up to \<open>2^53\<close> is the exact value \<open>Num n\<close>; a digit string of a larger
  value gives a rounded double or \<^verbatim>\<open>Infinity\<close>, which the model keeps apart as
  \<open>Big\<close> (with its sign) without saying which double it is; no digits give \<open>NaN\<close>.
\<close>

datatype qval = QStr string | QHundred

datatype jsnum = Num int | NaN | Big bool

record query_params =
  qp_where :: "string option"
  qp_sort :: "string option"
  qp_select :: "string option"
  qp_skip :: "string option"
  qp_limit :: "qval option"
  qp_count :: "string option"

record query =
  q_where :: "jsval option"
  q_sort :: "jsval option"
  q_select :: "jsval option"
  q_skip :: "jsnum option"
  q_limit :: "jsnum option"

definition emptyQuery :: query where
  "emptyQuery = \<lparr>q_where = None, q_sort = None, q_select = None,
                 q_skip = None, q_limit = None\<rparr>"

datatype clause = Where | Sort | Select

datatype warning = InvalidJson clause string

text \<open>
  \<^verbatim>\<open>JSON.parse\<close> (\<open>None\<close> when it throws \<^verbatim>\<open>SyntaxError\<close>) and whether the query
  builder accepts the parsed value for a clause (it throws \<^verbatim>\<open>TypeError\<close> otherwise)
  belong to the language and the storage library: parameters.
\<close>

record query_lib =
  jsonParse :: "string \<Rightarrow> jsval option"
  accepts :: "clause \<Rightarrow> jsval \<Rightarrow> bool"

definition truthyQ :: "qval option \<Rightarrow> bool" where
  "truthyQ x = (case x of None \<Rightarrow> False | Some (QStr s) \<Rightarrow> s \<noteq> [] | Some QHundred \<Rightarrow> True)"

subsection \<open>\<^verbatim>\<open>parseInt\<close>\<close>

text \<open>
  Leading white space and line terminators of the language, as UTF-8 bytes: the six
  ASCII ones, U+00A0, U+1680, U+2000 to U+200A, U+2028, U+2029, U+202F, U+205F, U+3000
  and U+FEFF.
\<close>

definition ws1 :: "nat \<Rightarrow> bool" where
  "ws1 a = (a \<in> {9, 10, 11, 12, 13, 32})"

definition ws2 :: "nat \<Rightarrow> nat \<Rightarrow> bool" where
  "ws2 a b = (a = 194 \<and> b = 160)"

definition ws3 :: "nat \<Rightarrow> nat \<Rightarrow> nat \<Rightarrow> bool" where
  "ws3 a b c =
     ((a = 225 \<and> b = 154 \<and> c = 128)
      \<or> (a = 226 \<and> b = 128 \<and> ((128 \<le> c \<and> c \<le> 138) \<or> c = 168 \<or> c = 169 \<or> c = 175))
      \<or> (a = 226 \<and> b = 129 \<and> c = 159)
      \<or> (a = 227 \<and> b = 128 \<and> c = 128)
      \<or> (a = 239 \<and> b = 187 \<and> c = 191))"

fun dropWs :: "nat list \<Rightarrow> nat list" where
  "dropWs (a # b # c # r) =
     (if ws1 a then dropWs (b # c # r)
      else if ws2 a b then dropWs (c # r)
      else if ws3 a b c then dropWs r
      else a # b # c # r)"
| "dropWs [a, b] = (if ws1 a then dropWs [b] else if ws2 a b then [] else [a, b])"
| "dropWs [a] = (if ws1 a then [] else [a])"
| "dropWs [] = []"

definition digitOf :: "nat \<Rightarrow> nat \<Rightarrow> nat option" where
  "digitOf radix n =
     (let v = (if 48 \<le> n \<and> n \<le> 57 then Some (n - 48)
               else if 97 \<le> n \<and> n \<le> 122 then Some (n - 87)
               else if 65 \<le> n \<and> n \<le> 90 then Some (n - 55)
               else None)
      in case v of None \<Rightarrow> None | Some k \<Rightarrow> if k < radix then Some k else None)"

fun takeDigits :: "nat \<Rightarrow> nat list \<Rightarrow> nat list" where
  "takeDigits radix [] = []"
| "takeDigits radix (c # cs) =
     (case digitOf radix c of None \<Rightarrow> [] | Some v \<Rightarrow> v # takeDigits radix cs)"

definition digitsValue :: "nat \<Rightarrow> nat list \<Rightarrow> nat" where
  "digitsValue radix ds = foldl (\<lambda>a v. a * radix + v) 0 ds"

fun stripSign :: "nat list \<Rightarrow> bool \<times> nat list" where
  "stripSign [] = (False, [])"
| "stripSign (c # cs) =
     (if c = 45 then (True, cs)
      else if c = 43 then (False, cs)
      else (False, c # cs))"

fun stripRadix :: "nat list \<Rightarrow> nat \<times> nat list" where
  "stripRadix (a # b # cs) =
     (if a = 48 \<and> (b = 120 \<or> b = 88) then (16, cs) else (10, a # b # cs))"
| "stripRadix cs = (10, cs)"

definition parseIntStr :: "string \<Rightarrow> jsnum" where
  "parseIntStr s =
     (let (neg, s1) = stripSign (dropWs (map of_char s));
          (radix, s2) = stripRadix s1;
          ds = takeDigits radix s2
      in if ds = [] then NaN
         else if digitsValue radix ds \<le> 9007199254740992
         then Num ((if neg then - 1 else 1) * int (digitsValue radix ds))
         else Big neg)"

definition parseInt :: "qval \<Rightarrow> jsnum" where
  "parseInt v = (case v of QStr s \<Rightarrow> parseIntStr s | QHundred \<Rightarrow> Num 100)"

subsection \<open>\<^verbatim>\<open>parseQuery\<close>\<close>

text \<open>
  A step of the function returns its result, or \<open>Inl\<close> what it throws. The three
  clause steps run \<^verbatim>\<open>JSON.parse\<close> and the builder call inside \<^verbatim>\<open>try\<close>
  (\<open>tryClause\<close>) and catch whatever is thrown with a warning (\<open>clauseStep\<close>); the skip
  and limit steps call the builder outside any \<^verbatim>\<open>try\<close>. The builder's
  \<^verbatim>\<open>skip\<close> and \<^verbatim>\<open>limit\<close> take a number and store it.
\<close>

definition setClause :: "clause \<Rightarrow> jsval \<Rightarrow> query \<Rightarrow> query" where
  "setClause c v q =
     (case c of
        Where \<Rightarrow> q\<lparr>q_where := Some v\<rparr>
      | Sort \<Rightarrow> q\<lparr>q_sort := Some v\<rparr>
      | Select \<Rightarrow> q\<lparr>q_select := Some v\<rparr>)"

text \<open>\<^verbatim>\<open>query.c(JSON.parse(p))\<close>, the body of the \<^verbatim>\<open>try\<close>.\<close>

definition tryClause :: "query_lib \<Rightarrow> clause \<Rightarrow> string \<Rightarrow> query \<Rightarrow> store_err + query" where
  "tryClause lib c p q =
     (case jsonParse lib p of
        None \<Rightarrow> Inl SyntaxErr
      | Some v \<Rightarrow> if accepts lib c v then Inr (setClause c v q) else Inl TypeErr)"

text \<open>
  \<^verbatim>\<open>if (p) { try { query.c(JSON.parse(p)); } catch (e) { console.warn(...); } }\<close>
\<close>

definition clauseStep ::
  "query_lib \<Rightarrow> clause \<Rightarrow> string option \<Rightarrow> query \<times> warning list
     \<Rightarrow> store_err + query \<times> warning list" where
  "clauseStep lib c p qw =
     (if truthyStr p
      then (case tryClause lib c (orEmpty p) (fst qw) of
              Inl e \<Rightarrow> Inr (fst qw, snd qw @ [InvalidJson c (orEmpty p)])
            | Inr q \<Rightarrow> Inr (q, snd qw))
      else Inr qw)"

definition querySkip :: "jsnum \<Rightarrow> query \<Rightarrow> store_err + query" where
  "querySkip n q = Inr (q\<lparr>q_skip := Some n\<rparr>)"

definition queryLimit :: "jsnum \<Rightarrow> query \<Rightarrow> store_err + query" where
  "queryLimit n q = Inr (q\<lparr>q_limit := Some n\<rparr>)"

text \<open>\<^verbatim>\<open>if (queryParams.skip) { query.skip(parseInt(queryParams.skip)); }\<close>\<close>

definition skipStep ::
  "query_params \<Rightarrow> query \<times> warning list \<Rightarrow> store_err + query \<times> warning list" where
  "skipStep qp qw =
     (if truthyStr (qp_skip qp)
      then (case querySkip (parseIntStr (orEmpty (qp_skip qp))) (fst qw) of
              Inl e \<Rightarrow> Inl e
            | Inr q \<Rightarrow> Inr (q, snd qw))
      else Inr qw)"

text \<open>\<^verbatim>\<open>if (queryParams.limit) { query.limit(parseInt(queryParams.limit)); }\<close>\<close>

definition limitStep ::
  "query_params \<Rightarrow> query \<times> warning list \<Rightarrow> store_err + query \<times> warning list" where
  "limitStep qp qw =
     (if truthyQ (qp_limit qp)
      then (case qp_limit qp of
              Some l \<Rightarrow> (case queryLimit (parseInt l) (fst qw) of
                           Inl e \<Rightarrow> Inl e
                         | Inr q \<Rightarrow> Inr (q, snd qw))
            | None \<Rightarrow> Inr qw)
      else Inr qw)"

text \<open>One statement after the other; what a step throws ends the function.\<close>

definition andThen :: "store_err + 'a \<Rightarrow> ('a \<Rightarrow> store_err + 'b) \<Rightarrow> store_err + 'b" where
  "andThen r f = (case r of Inl e \<Rightarrow> Inl e | Inr x \<Rightarrow> f x)"

definition parseQuery ::
  "query_lib \<Rightarrow> query \<Rightarrow> query_params \<Rightarrow> store_err + query \<times> warning list" where
  "parseQuery lib q0 qp =
     andThen (clauseStep lib Where (qp_where qp) (q0, []))
       (\<lambda>qw1. andThen (clauseStep lib Sort (qp_sort qp) qw1)
         (\<lambda>qw2. andThen (clauseStep lib Select (qp_select qp) qw2)
           (\<lambda>qw3. andThen (skipStep qp qw3)
             (\<lambda>qw4. limitStep qp qw4))))"

subsection \<open>Executing a query\<close>

text \<open>
  How the store reads a filter, a sort order and a projection is its own business:
  parameters. Skip and limit follow the store's conventions: limit 0 is no limit, a
  negative limit is its absolute value, and a skip or limit that is not a number the
  store can use (negative skip, \<open>NaN\<close>, \<open>Big\<close>) makes the query fail.
\<close>

record 'd store_sem =
  matchDoc :: "jsval \<Rightarrow> 'd \<Rightarrow> bool"
  sortDocs :: "jsval \<Rightarrow> 'd list \<Rightarrow> 'd list"
  projectDoc :: "jsval \<Rightarrow> 'd \<Rightarrow> 'd"

definition matching :: "'d store_sem \<Rightarrow> query \<Rightarrow> 'd list \<Rightarrow> 'd list" where
  "matching sem q docs =
     (let matched = (case q_where q of None \<Rightarrow> docs | Some w \<Rightarrow> filter (matchDoc sem w) docs)
      in case q_sort q of None \<Rightarrow> matched | Some s \<Rightarrow> sortDocs sem s matched)"

definition skipDocs :: "jsnum option \<Rightarrow> 'd list \<Rightarrow> store_err + 'd list" where
  "skipDocs k xs =
     (case k of
        None \<Rightarrow> Inr xs
      | Some NaN \<Rightarrow> Inl OtherErr
      | Some (Big neg) \<Rightarrow> Inl OtherErr
      | Some (Num n) \<Rightarrow> if n < 0 then Inl OtherErr else Inr (drop (nat n) xs))"

definition limitDocs :: "jsnum option \<Rightarrow> 'd list \<Rightarrow> store_err + 'd list" where
  "limitDocs k xs =
     (case k of
        None \<Rightarrow> Inr xs
      | Some NaN \<Rightarrow> Inl OtherErr
      | Some (Big neg) \<Rightarrow> Inl OtherErr
      | Some (Num n) \<Rightarrow> if n = 0 then Inr xs else Inr (take (nat \<bar>n\<bar>) xs))"

definition projecting :: "'d store_sem \<Rightarrow> query \<Rightarrow> 'd list \<Rightarrow> 'd list" where
  "projecting sem q xs =
     (case q_select q of None \<Rightarrow> xs | Some s \<Rightarrow> map (projectDoc sem s) xs)"

definition execFind :: "'d store_sem \<Rightarrow> query \<Rightarrow> 'd list \<Rightarrow> store_err + 'd list" where
  "execFind sem q docs =
     (case skipDocs (q_skip q) (matching sem q docs) of
        Inl e \<Rightarrow> Inl e
      | Inr skipped \<Rightarrow>
          (case limitDocs (q_limit q) skipped of
             Inl e \<Rightarrow> Inl e
           | Inr limited \<Rightarrow> Inr (projecting sem q limited)))"

subsection \<open>GET /users and GET /tasks\<close>

definition catchGet :: "store_err \<Rightarrow> response" where
  "catchGet e =
     (if e = SyntaxErr \<or> e = TypeErr then respond 400 MsgBadQuery PNull
      else respond 500 MsgInternal PNull)"

text \<open>
  \<open>countDocs\<close> is \<^verbatim>\<open>query.countDocuments()\<close>, a parameter. The handlers return the
  response and the warnings written to the console.
\<close>

definition getUsers ::
  "query_lib \<Rightarrow> user store_sem \<Rightarrow> (query \<Rightarrow> user list \<Rightarrow> store_err + nat) \<Rightarrow> db
     \<Rightarrow> query_params \<Rightarrow> response \<times> warning list" where
  "getUsers lib sem countDocs d qp =
     (case parseQuery lib emptyQuery qp of
        Inl e \<Rightarrow> (catchGet e, [])
      | Inr qw \<Rightarrow>
          if qp_count qp = Some ''true''
          then (case countDocs (fst qw) (users d) of
                  Inl e \<Rightarrow> (catchGet e, snd qw)
                | Inr n \<Rightarrow> (respond 200 MsgOK (PCount n), snd qw))
          else (case execFind sem (fst qw) (users d) of
                  Inl e \<Rightarrow> (catchGet e, snd qw)
                | Inr us \<Rightarrow> (respond 200 MsgOK (PUsers us), snd qw)))"

definition taskQueryParams :: "query_params \<Rightarrow> query_params" where
  "taskQueryParams qp =
     (if \<not> truthyQ (qp_limit qp) then qp\<lparr>qp_limit := Some QHundred\<rparr> else qp)"

definition getTasks ::
  "query_lib \<Rightarrow> task store_sem \<Rightarrow> (query \<Rightarrow> task list \<Rightarrow> store_err + nat) \<Rightarrow> db
     \<Rightarrow> query_params \<Rightarrow> response \<times> warning list" where
  "getTasks lib sem countDocs d qp =
     (case parseQuery lib emptyQuery (taskQueryParams qp) of
        Inl e \<Rightarrow> (catchGet e, [])
      | Inr qw \<Rightarrow>
          if qp_count qp = Some ''true''
          then (case countDocs (fst qw) (tasks d) of
                  Inl e \<Rightarrow> (catchGet e, snd qw)
                | Inr n \<Rightarrow> (respond 200 MsgOK (PCount n), snd qw))
          else (case execFind sem (fst qw) (tasks d) of
                  Inl e \<Rightarrow> (catchGet e, snd qw)
                | Inr ts \<Rightarrow> (respond 200 MsgOK (PTasks ts), snd qw)))"

section \<open>The association read as sets\<close>

text \<open>
  The specification speaks of the pending tasks of a user as a set of task ids, and of
  its compensations as set-add and set-remove. \<open>pendingOf\<close> reads the store that way
  (\<open>None\<close> for a user that does not exist). \<open>specUserChange\<close> and
  \<open>specCompletionChange\<close> follow the specification's words for Replace Task: the ids
  are compared as identifiers, \<open>wasCompleted\<close> and \<open>nowCompleted\<close> are the boolean pre-
  and post-image values.
\<close>

type_synonym pending = "string \<Rightarrow> string set option"

definition pendingOf :: "db \<Rightarrow> pending" where
  "pendingOf d u = map_option (\<lambda>x. set (pendingTasks x)) (findUser d u)"

definition specAdd :: "string \<Rightarrow> string \<Rightarrow> pending \<Rightarrow> pending" where
  "specAdd u t P = P(u := map_option (insert t) (P u))"




section \<open>A small store for the examples\<close>

definition idU1 :: string where "idU1 = ''a00000000000000000000001''"

definition idU2 :: string where "idU2 = ''a00000000000000000000002''"

definition idT1 :: string where "idT1 = ''b00000000000000000000001''"

definition idT2 :: string where "idT2 = ''b00000000000000000000002''"

definition idT9 :: string where "idT9 = ''b00000000000000000000009''"

text \<open>A well-formed identifier that no document has.\<close>

definition idNone :: string where "idNone = ''c00000000000000000000000''"

definition exAlice :: user where
  "exAlice = \<lparr>uid = idU1, uname = ''Alice'', email = ''a@x.com'', pendingTasks = [idT1]\<rparr>"

definition exBob :: user where
  "exBob = \<lparr>uid = idU2, uname = ''Bob'', email = ''b@x.com'', pendingTasks = []\<rparr>"

definition exT1 :: task where
  "exT1 = \<lparr>tid = idT1, tname = ''write'', description = [], deadline = JStr ''1730421319000.0'',
           completedRaw = JBool False, assignedUser = idU1, assignedUserName = ''Alice''\<rparr>"

definition exT2 :: task where
  "exT2 = \<lparr>tid = idT2, tname = ''review'', description = [], deadline = JStr ''1730421319000.0'',
           completedRaw = JBool True, assignedUser = [], assignedUserName = ''unassigned''\<rparr>"

definition exDb :: db where
  "exDb = \<lparr>users = [exAlice, exBob], tasks = [exT1, exT2]\<rparr>"


definition exTaskBody :: task_body where
  "exTaskBody = \<lparr>tb_name = Some ''write'', tb_description = None,
                 tb_deadline = JStr ''1730421319000.0'', tb_completed = JBool False,
                 tb_assignedUser = Some idU1, tb_assignedUserName = Some ''Alice''\<rparr>"


definition exSave :: "task \<Rightarrow> store_err + task" where
  "exSave t = Inr (t\<lparr>tid := idT9\<rparr>)"

definition exPersistTask :: "string \<Rightarrow> task_body \<Rightarrow> store_err + task" where
  "exPersistTask i r =
     Inr \<lparr>tid = i, tname = orEmpty (tb_name r), description = orEmpty (tb_description r),
          deadline = tb_deadline r, completedRaw = JBool (tb_completed r = JBool True),
          assignedUser = orEmpty (tb_assignedUser r),
          assignedUserName = (if truthyStr (tb_assignedUserName r)
                              then orEmpty (tb_assignedUserName r) else ''unassigned'')\<rparr>"

definition exLib :: query_lib where
  "exLib = \<lparr>jsonParse = (\<lambda>s. if s = ''{}'' then Some (JObj []) else None),
            accepts = (\<lambda>c v. True)\<rparr>"

definition exSemUser :: "user store_sem" where
  "exSemUser = \<lparr>matchDoc = (\<lambda>w u. True), sortDocs = (\<lambda>s us. us), projectDoc = (\<lambda>s u. u)\<rparr>"

definition exSemTask :: "task store_sem" where
  "exSemTask = \<lparr>matchDoc = (\<lambda>w t. True), sortDocs = (\<lambda>s ts. ts), projectDoc = (\<lambda>s t. t)\<rparr>"

definition exCount :: "query \<Rightarrow> 'd list \<Rightarrow> store_err + nat" where
  "exCount q docs = Inr (length docs)"

definition exParams :: query_params where
  "exParams = \<lparr>qp_where = None, qp_sort = None, qp_select = None, qp_skip = None,
               qp_limit = None, qp_count = None\<rparr>"

text \<open>A store with 150 users and 150 tasks, for the list queries.\<close>

definition hexDigit :: "nat \<Rightarrow> char" where
  "hexDigit k = ''0123456789abcdef'' ! (k mod 16)"

definition exId :: "char \<Rightarrow> nat \<Rightarrow> string" where
  "exId c n = c # replicate 20 CHR ''0'' @
                [hexDigit (n div 256), hexDigit (n div 16), hexDigit n]"

definition exBig :: db where
  "exBig = \<lparr>users = map (\<lambda>n. exBob\<lparr>uid := exId CHR ''a'' n\<rparr>) [0..<150],
            tasks = map (\<lambda>n. exT2\<lparr>tid := exId CHR ''b'' n\<rparr>) [0..<150]\<rparr>"


section \<open>Executing store writes\<close>

lemma runOps_Nil: "runOps [] d = d"
  by (simp add: runOps_def)



lemma find_updateFirst:
  assumes "\<And>x. uid (f x) = uid x"
  shows "find (\<lambda>x. uid x = j) (updateFirst (\<lambda>x. uid x = u) f xs)
         = (if j = u then map_option f (find (\<lambda>x. uid x = u) xs)
            else find (\<lambda>x. uid x = j) xs)"
  using assms by (induction xs) auto


lemma set_addToSet: "set (addToSet t xs) = insert t (set xs)"
  by (auto simp: addToSet_def)


lemma pendingOf_add: "pendingOf (exec_op (UserAddToSet u t) d) = specAdd u t (pendingOf d)"
  by (rule ext) (simp add: pendingOf_def specAdd_def findUser_def find_updateFirst
      option.map_comp comp_def set_addToSet)

lemma pendingOf_taskOverwrite: "pendingOf (exec_op (TaskOverwrite i r t') d) = pendingOf d"
  by (rule ext) (simp add: pendingOf_def findUser_def)


lemma findUser_uid: "findUser d i = Some u \<Longrightarrow> uid u = i"
  by (auto simp: findUser_def find_Some_iff)

lemma example_ids:
  "isObjectId idU1" "isObjectId idU2" "isObjectId idT1" "isObjectId idT2"
  "isObjectId idT9" "isObjectId idNone" "\<not> isObjectId []" "\<not> isObjectId ''garbage''"
  by (simp_all add: isObjectId_def isHexDigit_def idU1_def idU2_def idT1_def idT2_def
      idT9_def idNone_def)

lemma example_ids_distinct:
  "idU1 \<noteq> idU2" "idU2 \<noteq> idU1" "idT1 \<noteq> idT2" "idT2 \<noteq> idT1" "idU1 \<noteq> []" "idU2 \<noteq> []"
  "idT1 \<noteq> []" "idT2 \<noteq> []" "idT9 \<noteq> idT1" "idT1 \<noteq> idT9" "idNone \<noteq> idU1" "idNone \<noteq> idU2"
  "idU1 \<noteq> idNone" "idU2 \<noteq> idNone" "idT2 \<noteq> ''garbage''" "idT1 \<noteq> ''garbage''"
  "''garbage'' \<noteq> idT1" "''garbage'' \<noteq> idT2" "idT9 \<noteq> []" "idT9 \<noteq> idT2" "idT2 \<noteq> idT9"
  "idNone \<noteq> []"
  by (simp_all add: idU1_def idU2_def idT1_def idT2_def idT9_def idNone_def)

lemma example_lookups:
  "findUser exDb idU1 = Some exAlice" "findUser exDb idU2 = Some exBob"
  "findUser exDb idNone = None"
  "findTask exDb idT1 = Some exT1" "findTask exDb idT2 = Some exT2"
  by (simp_all add: findUser_def findTask_def exDb_def exAlice_def exBob_def exT1_def exT2_def
      example_ids_distinct)

section \<open>Replace User: a completed task cannot become pending\<close>








section \<open>Replace Task: the two compensations\<close>











section \<open>Create Task: the idempotent add\<close>
lemma addToSet_idem: "addToSet t (addToSet t xs) = addToSet t xs"
  by (simp add: addToSet_def)

lemma count_addToSet:
  "count_list (addToSet t xs) x = (if x = t \<and> t \<notin> set xs then 1 else count_list xs x)"
  by (induction xs) (auto simp: addToSet_def split: if_splits)

lemma updateFirst_idem:
  assumes "\<And>x. P (f x) = P x" and "\<And>x. f (f x) = f x"
  shows "updateFirst P f (updateFirst P f xs) = updateFirst P f xs"
  using assms by (induction xs) auto

lemma exec_add_idem:
  "exec_op (UserAddToSet a t) (exec_op (UserAddToSet a t) s) = exec_op (UserAddToSet a t) s"
  by (simp add: updateFirst_idem addToSet_idem)

lemma findUser_exec_add:
  "findUser (exec_op (UserAddToSet a t) s) u =
     (if u = a then map_option (\<lambda>x. x\<lparr>pendingTasks := addToSet t (pendingTasks x)\<rparr>) (findUser s a)
      else findUser s u)"
  by (simp add: findUser_def find_updateFirst)

lemma postTask_status_201:
  assumes "status (fst (postTask save d body)) = 201"
  shows "\<exists>validUserName savedTask.
           save (newTaskOf body validUserName) = Inr savedTask
           \<and> postTask save d body =
               (respond 201 MsgTaskCreated (PTask savedTask),
                TaskSave (newTaskOf body validUserName) savedTask # createCompensation savedTask)"
  using assms
  by (auto simp: postTask_def Let_def respond_def catchPostTask_def checkAssignedCreate_def
      userFindById_def split: if_splits option.splits sum.splits)

text \<open>
  C3. A successful Create Task (status 201): the first store write is the save of the
  task; after it, exactly when the saved task has a non-empty \<open>assignedUser\<close> and is
  not completed, the handler adds the task id to that user's pending list. The add is a
  set-add that is idempotent on the whole store (applying it twice is applying it once),
  it is the specification's set-add on the pending sets, and it never raises the number
  of occurrences of an id in a pending list above one (or above what it was).
\<close>

theorem postTask_adds_idempotently:
  assumes ok: "status (fst (postTask save d body)) = 201"
  shows "\<exists>newTask savedTask.
           save newTask = Inr savedTask
         \<and> snd (postTask save d body) =
             TaskSave newTask savedTask #
             (if assignedUser savedTask \<noteq> [] \<and> \<not> completed savedTask
              then [UserAddToSet (assignedUser savedTask) (tid savedTask)] else [])
         \<and> (\<forall>s. exec_op (UserAddToSet (assignedUser savedTask) (tid savedTask))
                  (exec_op (UserAddToSet (assignedUser savedTask) (tid savedTask)) s)
                = exec_op (UserAddToSet (assignedUser savedTask) (tid savedTask)) s)
         \<and> (\<forall>s. pendingOf (exec_op (UserAddToSet (assignedUser savedTask) (tid savedTask)) s)
                = specAdd (assignedUser savedTask) (tid savedTask) (pendingOf s))
         \<and> (\<forall>s u usr x. findUser s u = Some usr \<longrightarrow>
               (\<exists>usr'. findUser (exec_op (UserAddToSet (assignedUser savedTask) (tid savedTask)) s) u
                         = Some usr'
                  \<and> count_list (pendingTasks usr') x \<le> max 1 (count_list (pendingTasks usr) x)))"
proof -
  from postTask_status_201 [OF ok] obtain v savedTask where
    sv: "save (newTaskOf body v) = Inr savedTask" and
    eq: "postTask save d body =
               (respond 201 MsgTaskCreated (PTask savedTask),
                TaskSave (newTaskOf body v) savedTask # createCompensation savedTask)"
    by blast
  let ?a = "assignedUser savedTask" and ?t = "tid savedTask"
  have tr: "snd (postTask save d body) =
             TaskSave (newTaskOf body v) savedTask #
             (if ?a \<noteq> [] \<and> \<not> completed savedTask then [UserAddToSet ?a ?t] else [])"
    by (simp add: eq createCompensation_def)
  have idem: "\<forall>s. exec_op (UserAddToSet ?a ?t) (exec_op (UserAddToSet ?a ?t) s)
                = exec_op (UserAddToSet ?a ?t) s"
    using exec_add_idem by blast
  have sets: "\<forall>s. pendingOf (exec_op (UserAddToSet ?a ?t) s) = specAdd ?a ?t (pendingOf s)"
    using pendingOf_add by blast
  have nodup: "\<forall>s u usr x. findUser s u = Some usr \<longrightarrow>
               (\<exists>usr'. findUser (exec_op (UserAddToSet ?a ?t) s) u = Some usr'
                  \<and> count_list (pendingTasks usr') x \<le> max 1 (count_list (pendingTasks usr) x))"
    by (auto simp: findUser_exec_add count_addToSet simp del: exec_op.simps)
  from sv tr idem sets nodup show ?thesis by blast
qed


theorem postTask_adds_idempotently_witness:
  "status (fst (postTask exSave exDb
       (exTaskBody\<lparr>tb_assignedUser := Some idU2, tb_assignedUserName := Some ''Bob''\<rparr>))) = 201
   \<and> (\<exists>newTask savedTask.
         exSave newTask = Inr savedTask
       \<and> snd (postTask exSave exDb
           (exTaskBody\<lparr>tb_assignedUser := Some idU2, tb_assignedUserName := Some ''Bob''\<rparr>)) =
           TaskSave newTask savedTask #
           (if assignedUser savedTask \<noteq> [] \<and> \<not> completed savedTask
            then [UserAddToSet (assignedUser savedTask) (tid savedTask)] else []))
   \<and> map pendingTasks (users (runOps (snd (postTask exSave exDb
       (exTaskBody\<lparr>tb_assignedUser := Some idU2, tb_assignedUserName := Some ''Bob''\<rparr>))) exDb))
     = [[idT1], [idT9]]
   \<and> map pendingTasks (users (exec_op (UserAddToSet idU2 idT9) (runOps (snd (postTask exSave exDb
       (exTaskBody\<lparr>tb_assignedUser := Some idU2, tb_assignedUserName := Some ''Bob''\<rparr>))) exDb)))
     = [[idT1], [idT9]]
   \<and> findUser exDb idU2 = Some exBob"
proof -
  let ?b = "exTaskBody\<lparr>tb_assignedUser := Some idU2, tb_assignedUserName := Some ''Bob''\<rparr>"
  let ?saved = "\<lparr>tid = idT9, tname = ''write'', description = [],
                 deadline = JStr ''1730421319000.0'', completedRaw = JBool False,
                 assignedUser = idU2, assignedUserName = ''Bob''\<rparr>"
  have ev: "postTask exSave exDb ?b =
      (respond 201 MsgTaskCreated (PTask ?saved),
       [TaskSave (?saved\<lparr>tid := []\<rparr>) ?saved, UserAddToSet idU2 idT9])"
    by (simp add: postTask_def Let_def truthyStr_def orEmpty_def checkAssignedCreate_def
        userFindById_def example_ids example_lookups example_ids_distinct completed_def
        newTaskOf_def completedOnCreate_def createCompensation_def
        exSave_def exTaskBody_def exBob_def)
  have h1: "status (fst (postTask exSave exDb ?b)) = 201"
    by (simp add: ev respond_def)
  have fin: "map pendingTasks (users (runOps (snd (postTask exSave exDb ?b)) exDb))
     = [[idT1], [idT9]]"
    unfolding ev snd_conv
    by (simp add: runOps_def exDb_def exAlice_def exBob_def addToSet_def example_ids_distinct)
  have fin2: "map pendingTasks (users (exec_op (UserAddToSet idU2 idT9)
       (runOps (snd (postTask exSave exDb ?b)) exDb))) = [[idT1], [idT9]]"
    unfolding ev snd_conv
    by (simp add: runOps_def exDb_def exAlice_def exBob_def addToSet_def example_ids_distinct)
  have h2: "findUser exDb idU2 = Some exBob"
    by (rule example_lookups)
  from postTask_adds_idempotently [OF h1] h1 fin fin2 h2 show ?thesis
    by blast
qed


section \<open>Delete User\<close>








section \<open>Replacing a completed task\<close>

lemma putTask_completed_fails:
  assumes old: "findTask d i = Some oldTask" and c: "completed oldTask"
  shows "status (fst (putTask persist d i body)) \<in> {400, 404}
         \<and> snd (putTask persist d i body) = []"
  using assms
  by (auto simp: putTask_def Let_def respond_def checkAssignedReplace_def userFindById_def
      taskFindById_def catchPutTask_def split: option.splits)

text \<open>
  C5 (as the code has it). Replace Task on a stored task whose \<open>completed\<close> flag is
  true: the request always fails (status 400 or 404) and issues no store write, so the
  stored task and everything else stay as they were; when the request passes the checks
  that come first (name and deadline present, assigned-user check, cast of the task id),
  the failure is the "already completed" error with status 400.
\<close>

theorem putTask_rejects_completed:
  assumes old: "findTask d i = Some oldTask" and c: "completed oldTask"
  shows "status (fst (putTask persist d i body)) \<in> {400, 404}
       \<and> snd (putTask persist d i body) = []
       \<and> runOps (snd (putTask persist d i body)) d = d
       \<and> findTask (runOps (snd (putTask persist d i body)) d) i = Some oldTask
       \<and> (truthyStr (tb_name body) \<and> truthy (tb_deadline body)
            \<and> checkAssignedReplace d body = None \<and> isObjectId i
          \<longrightarrow> fst (putTask persist d i body) = respond 400 MsgAlreadyCompleted PNull)"
proof -
  from putTask_completed_fails [OF old c]
  have a: "status (fst (putTask persist d i body)) \<in> {400, 404}"
    and b: "snd (putTask persist d i body) = []" by blast+
  have r: "runOps (snd (putTask persist d i body)) d = d"
    by (simp add: b runOps_Nil)
  have e: "truthyStr (tb_name body) \<and> truthy (tb_deadline body)
            \<and> checkAssignedReplace d body = None \<and> isObjectId i
          \<longrightarrow> fst (putTask persist d i body) = respond 400 MsgAlreadyCompleted PNull"
    using old c by (simp add: putTask_def Let_def taskFindById_def)
  from a b r e old show ?thesis by simp
qed

theorem putTask_rejects_completed_witness:
  "findTask exDb idT2 = Some exT2 \<and> completed exT2
   \<and> truthyStr (tb_name exTaskBody) \<and> truthy (tb_deadline exTaskBody)
   \<and> checkAssignedReplace exDb exTaskBody = None \<and> isObjectId idT2
   \<and> fst (putTask exPersistTask exDb idT2 exTaskBody) = respond 400 MsgAlreadyCompleted PNull
   \<and> snd (putTask exPersistTask exDb idT2 exTaskBody) = []
   \<and> runOps (snd (putTask exPersistTask exDb idT2 exTaskBody)) exDb = exDb
   \<and> findTask (runOps (snd (putTask exPersistTask exDb idT2 exTaskBody)) exDb) idT2
       = Some exT2"
proof -
  have h1: "findTask exDb idT2 = Some exT2"
    by (rule example_lookups)
  have h2: "completed exT2" by (simp add: exT2_def completed_def)
  have h3: "truthyStr (tb_name exTaskBody)" "truthy (tb_deadline exTaskBody)"
    by (simp_all add: truthyStr_def exTaskBody_def)
  have h4: "checkAssignedReplace exDb exTaskBody = None"
    by (simp add: checkAssignedReplace_def truthyStr_def orEmpty_def userFindById_def
        example_ids example_lookups example_ids_distinct exTaskBody_def exAlice_def)
  have h5: "isObjectId idT2" by (rule example_ids)
  from putTask_rejects_completed [OF h1 h2, of exPersistTask exTaskBody] h1 h2 h3 h4 h5
  show ?thesis by blast
qed

text \<open>
  The claim C5 as stated fails for a request that the earlier checks reject: with the
  name missing, the error on the completed task \<open>idT2\<close> is the required-fields one.
\<close>

theorem putTask_completed_other_error_counterexample:
  "findTask exDb idT2 = Some exT2 \<and> completed exT2
   \<and> fst (putTask exPersistTask exDb idT2 (exTaskBody\<lparr>tb_name := None\<rparr>))
       = respond 400 MsgRequiredFields PNull
   \<and> message (fst (putTask exPersistTask exDb idT2 (exTaskBody\<lparr>tb_name := None\<rparr>)))
       \<noteq> MsgAlreadyCompleted"
  by (simp add: putTask_def truthyStr_def example_lookups respond_def exT2_def completed_def)

section \<open>The check of the assigned user\<close>









section \<open>The query interpreter is lenient\<close>

lemma clauseStep_total: "clauseStep lib c p qw = Inr (projr (clauseStep lib c p qw))"
  by (simp add: clauseStep_def split: sum.splits)



lemma clauseStep_pair:
  "projr (clauseStep lib c p (q, w)) =
     (fst (projr (clauseStep lib c p (q, []))), w @ snd (projr (clauseStep lib c p (q, []))))"
  by (simp add: clauseStep_def split: sum.splits)

lemma clauseStep_numeric:
  "q_skip (fst (projr (clauseStep lib c p qw))) = q_skip (fst qw)"
  "q_limit (fst (projr (clauseStep lib c p qw))) = q_limit (fst qw)"
  by (auto simp: clauseStep_def tryClause_def setClause_def
      split: sum.splits option.splits clause.splits if_splits)

lemma skipStep_eq:
  "skipStep qp (q, w) =
     Inr (if truthyStr (qp_skip qp)
          then q\<lparr>q_skip := Some (parseIntStr (orEmpty (qp_skip qp)))\<rparr> else q, w)"
  by (simp add: skipStep_def querySkip_def)

lemma limitStep_eq:
  "limitStep qp (q, w) =
     Inr (if truthyQ (qp_limit qp)
          then q\<lparr>q_limit := map_option parseInt (qp_limit qp)\<rparr> else q, w)"
  by (auto simp: limitStep_def queryLimit_def truthyQ_def split: option.splits)

lemma parseQuery_explicit:
  "parseQuery lib qi qp =
     Inr ((\<lambda>q. if truthyQ (qp_limit qp)
               then q\<lparr>q_limit := map_option parseInt (qp_limit qp)\<rparr> else q)
          ((\<lambda>q. if truthyStr (qp_skip qp)
                then q\<lparr>q_skip := Some (parseIntStr (orEmpty (qp_skip qp)))\<rparr> else q)
           (fst (projr (clauseStep lib Select (qp_select qp)
             (fst (projr (clauseStep lib Sort (qp_sort qp)
               (fst (projr (clauseStep lib Where (qp_where qp) (qi, []))), []))), []))))),
      snd (projr (clauseStep lib Where (qp_where qp) (qi, []))) @
      snd (projr (clauseStep lib Sort (qp_sort qp)
            (fst (projr (clauseStep lib Where (qp_where qp) (qi, []))), []))) @
      snd (projr (clauseStep lib Select (qp_select qp)
            (fst (projr (clauseStep lib Sort (qp_sort qp)
              (fst (projr (clauseStep lib Where (qp_where qp) (qi, []))), []))), []))))"
proof -
  obtain q1 w1 where s1: "projr (clauseStep lib Where (qp_where qp) (qi, [])) = (q1, w1)"
    by (cases "projr (clauseStep lib Where (qp_where qp) (qi, []))")
  obtain q2 w2 where s2: "projr (clauseStep lib Sort (qp_sort qp) (q1, [])) = (q2, w2)"
    by (cases "projr (clauseStep lib Sort (qp_sort qp) (q1, []))")
  obtain q3 w3 where s3: "projr (clauseStep lib Select (qp_select qp) (q2, [])) = (q3, w3)"
    by (cases "projr (clauseStep lib Select (qp_select qp) (q2, []))")
  have t1: "clauseStep lib Where (qp_where qp) (qi, []) = Inr (q1, w1)"
    using clauseStep_total [of lib Where "qp_where qp" "(qi, [])"] by (simp add: s1)
  have t2: "clauseStep lib Sort (qp_sort qp) (q1, w1) = Inr (q2, w1 @ w2)"
    using clauseStep_total [of lib Sort "qp_sort qp" "(q1, w1)"]
      clauseStep_pair [of lib Sort "qp_sort qp" q1 w1] by (simp add: s2)
  have t3: "clauseStep lib Select (qp_select qp) (q2, w1 @ w2) = Inr (q3, (w1 @ w2) @ w3)"
    using clauseStep_total [of lib Select "qp_select qp" "(q2, w1 @ w2)"]
      clauseStep_pair [of lib Select "qp_select qp" q2 "w1 @ w2"] by (simp add: s3)
  show ?thesis
    by (simp add: parseQuery_def andThen_def s1 s2 s3 t1 t2 t3 skipStep_eq limitStep_eq)
qed

lemma parseQuery_Inr: "\<exists>q ws. parseQuery lib qi qp = Inr (q, ws)"
  by (subst parseQuery_explicit) blast

lemma parseQuery_skip:
  "parseQuery lib qi qp = Inr (q, ws) \<Longrightarrow> q_skip q =
     (if truthyStr (qp_skip qp) then Some (parseIntStr (orEmpty (qp_skip qp))) else q_skip qi)"
  by (auto simp: parseQuery_explicit clauseStep_numeric)

lemma parseQuery_limit:
  "parseQuery lib qi qp = Inr (q, ws) \<Longrightarrow> q_limit q =
     (if truthyQ (qp_limit qp) then map_option parseInt (qp_limit qp) else q_limit qi)"
  by (auto simp: parseQuery_explicit clauseStep_numeric)







lemma getUsers_fst:
  assumes "parseQuery lib emptyQuery qp = Inr (q, ws)"
  shows "fst (getUsers lib sem cnt d qp) =
     (if qp_count qp = Some ''true''
      then (case cnt q (users d) of
              Inl e \<Rightarrow> catchGet e | Inr n \<Rightarrow> respond 200 MsgOK (PCount n))
      else (case execFind sem q (users d) of
              Inl e \<Rightarrow> catchGet e | Inr us \<Rightarrow> respond 200 MsgOK (PUsers us)))"
  by (simp add: getUsers_def assms split: sum.splits)

lemma getTasks_fst:
  assumes "parseQuery lib emptyQuery (taskQueryParams qp) = Inr (q, ws)"
  shows "fst (getTasks lib sem cnt d qp) =
     (if qp_count qp = Some ''true''
      then (case cnt q (tasks d) of
              Inl e \<Rightarrow> catchGet e | Inr n \<Rightarrow> respond 200 MsgOK (PCount n))
      else (case execFind sem q (tasks d) of
              Inl e \<Rightarrow> catchGet e | Inr ts \<Rightarrow> respond 200 MsgOK (PTasks ts)))"
  by (simp add: getTasks_def assms split: sum.splits)









section \<open>The default limit of the list queries\<close>

lemma length_projecting: "length (projecting sem q xs) = length xs"
  by (simp add: projecting_def split: option.splits)

lemma execFind_limit_100:
  assumes "q_limit q = Some (Num 100)" and "execFind sem q docs = Inr xs"
  shows "length xs \<le> 100"
  using assms
  by (auto simp: execFind_def limitDocs_def length_projecting split: sum.splits)

lemma execFind_no_limit:
  assumes "q_limit q = None" and "execFind sem q docs = Inr xs"
  shows "\<exists>k. xs = projecting sem q (drop k (matching sem q docs))"
proof (cases "q_skip q")
  case None
  with assms have "xs = projecting sem q (drop 0 (matching sem q docs))"
    by (simp add: execFind_def limitDocs_def skipDocs_def)
  then show ?thesis by blast
next
  case (Some n)
  with assms have "xs = projecting sem q (drop (case n of Num m \<Rightarrow> nat m | _ \<Rightarrow> 0)
                                             (matching sem q docs))"
    by (cases n) (auto simp: execFind_def limitDocs_def skipDocs_def split: if_splits)
  then show ?thesis by blast
qed

lemma execFind_plain:
  assumes "q_limit q = None" and "q_skip q = None"
  shows "execFind sem q docs = Inr (projecting sem q (matching sem q docs))"
  using assms by (simp add: execFind_def limitDocs_def skipDocs_def)

lemma payload_catchGet: "payload (catchGet e) = PNull"
  by (simp add: catchGet_def respond_def)

lemma taskQueryParams_limit:
  assumes "\<not> truthyQ (qp_limit qp)"
    and "parseQuery lib emptyQuery (taskQueryParams qp) = Inr (q, ws)"
  shows "q_limit q = Some (Num 100)"
  using assms(1) parseQuery_limit [OF assms(2)]
  by (simp add: taskQueryParams_def truthyQ_def parseInt_def)

text \<open>
  C8. With no \<open>limit\<close> parameter (absent or empty): GET /tasks runs its query with
  limit 100, so a task list it returns has at most 100 elements; GET /users runs its
  query with no limit at all, so a user list it returns is the whole list of matching
  users (filtered and sorted, then projected) from which only a skip has dropped leading
  elements, and when there is no skip either (and no count) it is that whole list, of the
  same length as the list of matches. Here \<open>qu\<close> is the query that \<open>parseQuery\<close> builds
  for GET /users and \<open>qt\<close> the one it builds for GET /tasks.
\<close>

theorem list_limit_defaults:
  "\<exists>qu wu qt wt.
     parseQuery lib emptyQuery qp = Inr (qu, wu)
   \<and> parseQuery lib emptyQuery (taskQueryParams qp) = Inr (qt, wt)
   \<and> (\<not> truthyQ (qp_limit qp) \<and> payload (fst (getTasks lib semT cntT d qp)) = PTasks ts \<longrightarrow>
        length ts \<le> 100)
   \<and> (\<not> truthyQ (qp_limit qp) \<longrightarrow> q_limit qt = Some (Num 100) \<and> q_limit qu = None)
   \<and> (\<not> truthyQ (qp_limit qp) \<and> payload (fst (getUsers lib semU cntU d qp)) = PUsers us \<longrightarrow>
        (\<exists>k. us = projecting semU qu (drop k (matching semU qu (users d)))))
   \<and> (\<not> truthyQ (qp_limit qp) \<and> \<not> truthyStr (qp_skip qp) \<and> qp_count qp \<noteq> Some ''true'' \<longrightarrow>
        fst (getUsers lib semU cntU d qp) =
          respond 200 MsgOK (PUsers (projecting semU qu (matching semU qu (users d))))
      \<and> length (projecting semU qu (matching semU qu (users d)))
          = length (matching semU qu (users d)))"
proof -
  obtain qu wu where eu: "parseQuery lib emptyQuery qp = Inr (qu, wu)"
    using parseQuery_Inr by blast
  obtain qt wt where et: "parseQuery lib emptyQuery (taskQueryParams qp) = Inr (qt, wt)"
    using parseQuery_Inr by blast
  have lu: "\<not> truthyQ (qp_limit qp) \<Longrightarrow> q_limit qu = None"
    using parseQuery_limit [OF eu] by (simp add: emptyQuery_def)
  have su: "\<not> truthyStr (qp_skip qp) \<Longrightarrow> q_skip qu = None"
    using parseQuery_skip [OF eu] by (simp add: emptyQuery_def)
  have lt: "\<not> truthyQ (qp_limit qp) \<Longrightarrow> q_limit qt = Some (Num 100)"
    using taskQueryParams_limit [OF _ et] by blast
  have c1: "\<not> truthyQ (qp_limit qp) \<and> payload (fst (getTasks lib semT cntT d qp)) = PTasks ts \<longrightarrow>
        length ts \<le> 100"
  proof
    assume a: "\<not> truthyQ (qp_limit qp) \<and> payload (fst (getTasks lib semT cntT d qp)) = PTasks ts"
    then have "execFind semT qt (tasks d) = Inr ts"
      by (auto simp: getTasks_fst [OF et] payload_catchGet respond_def
          split: if_splits sum.splits)
    with lt a show "length ts \<le> 100" by (blast intro: execFind_limit_100)
  qed
  have c2: "\<not> truthyQ (qp_limit qp) \<longrightarrow> q_limit qt = Some (Num 100) \<and> q_limit qu = None"
    using lt lu by blast
  have c3: "\<not> truthyQ (qp_limit qp) \<and> payload (fst (getUsers lib semU cntU d qp)) = PUsers us \<longrightarrow>
        (\<exists>k. us = projecting semU qu (drop k (matching semU qu (users d))))"
  proof
    assume a: "\<not> truthyQ (qp_limit qp) \<and> payload (fst (getUsers lib semU cntU d qp)) = PUsers us"
    then have "execFind semU qu (users d) = Inr us"
      by (auto simp: getUsers_fst [OF eu] payload_catchGet respond_def
          split: if_splits sum.splits)
    with lu a show "\<exists>k. us = projecting semU qu (drop k (matching semU qu (users d)))"
      by (blast intro: execFind_no_limit)
  qed
  have c4: "\<not> truthyQ (qp_limit qp) \<and> \<not> truthyStr (qp_skip qp) \<and> qp_count qp \<noteq> Some ''true'' \<longrightarrow>
        fst (getUsers lib semU cntU d qp) =
          respond 200 MsgOK (PUsers (projecting semU qu (matching semU qu (users d))))
      \<and> length (projecting semU qu (matching semU qu (users d)))
          = length (matching semU qu (users d))"
  proof
    assume a: "\<not> truthyQ (qp_limit qp) \<and> \<not> truthyStr (qp_skip qp) \<and> qp_count qp \<noteq> Some ''true''"
    then have l: "q_limit qu = None" and s: "q_skip qu = None"
      using lu su by blast+
    from a have "fst (getUsers lib semU cntU d qp) =
          respond 200 MsgOK (PUsers (projecting semU qu (matching semU qu (users d))))"
      by (simp add: getUsers_fst [OF eu] execFind_plain [OF l s])
    then show "fst (getUsers lib semU cntU d qp) =
          respond 200 MsgOK (PUsers (projecting semU qu (matching semU qu (users d))))
      \<and> length (projecting semU qu (matching semU qu (users d)))
          = length (matching semU qu (users d))"
      by (simp add: length_projecting)
  qed
  from eu et c1 c2 c3 c4 show ?thesis by blast
qed

theorem list_limit_defaults_witness:
  "\<not> truthyQ (qp_limit exParams) \<and> \<not> truthyStr (qp_skip exParams)
   \<and> qp_count exParams \<noteq> Some ''true''
   \<and> length (tasks exBig) = 150 \<and> length (users exBig) = 150
   \<and> parseQuery exLib emptyQuery exParams = Inr (emptyQuery, [])
   \<and> parseQuery exLib emptyQuery (taskQueryParams exParams)
       = Inr (emptyQuery\<lparr>q_limit := Some (Num 100)\<rparr>, [])
   \<and> payload (fst (getTasks exLib exSemTask exCount exBig exParams))
       = PTasks (take 100 (tasks exBig))
   \<and> length (take 100 (tasks exBig)) \<le> 100
   \<and> fst (getUsers exLib exSemUser exCount exBig exParams)
       = respond 200 MsgOK (PUsers (users exBig))
   \<and> payload (fst (getUsers exLib exSemUser exCount exBig exParams)) = PUsers (users exBig)"
proof -
  have h: "\<not> truthyQ (qp_limit exParams)" "\<not> truthyStr (qp_skip exParams)"
    "qp_count exParams \<noteq> Some ''true''"
    by (simp_all add: truthyQ_def truthyStr_def exParams_def)
  have n: "length (tasks exBig) = 150" "length (users exBig) = 150"
    by (simp_all add: exBig_def)
  have qa: "parseQuery exLib emptyQuery exParams = Inr (emptyQuery, [])"
    by (simp add: parseQuery_def andThen_def clauseStep_def skipStep_def limitStep_def
        truthyStr_def truthyQ_def exParams_def)
  have qb: "parseQuery exLib emptyQuery (taskQueryParams exParams)
       = Inr (emptyQuery\<lparr>q_limit := Some (Num 100)\<rparr>, [])"
    by (simp add: parseQuery_def andThen_def clauseStep_def skipStep_def limitStep_def
        queryLimit_def taskQueryParams_def truthyStr_def truthyQ_def parseInt_def
        exParams_def)
  have t: "payload (fst (getTasks exLib exSemTask exCount exBig exParams))
       = PTasks (take 100 (tasks exBig))"
    apply (simp only: getTasks_fst [OF qb] h if_False)
    apply (simp add: execFind_def skipDocs_def limitDocs_def matching_def
        projecting_def emptyQuery_def respond_def)
    done
  have m: "projecting exSemUser emptyQuery (matching exSemUser emptyQuery (users exBig))
             = users exBig"
    by (simp add: projecting_def matching_def emptyQuery_def)
  from list_limit_defaults [where qp = exParams and lib = exLib and semT = exSemTask
      and cntT = exCount and d = exBig and ts = "take 100 (tasks exBig)"
      and semU = exSemUser and cntU = exCount and us = "users exBig"]
  obtain qu wu qt wt where
    eu: "parseQuery exLib emptyQuery exParams = Inr (qu, wu)" and
    et: "parseQuery exLib emptyQuery (taskQueryParams exParams) = Inr (qt, wt)" and
    c1: "\<not> truthyQ (qp_limit exParams)
          \<and> payload (fst (getTasks exLib exSemTask exCount exBig exParams))
              = PTasks (take 100 (tasks exBig)) \<longrightarrow>
        length (take 100 (tasks exBig)) \<le> 100" and
    c4: "\<not> truthyQ (qp_limit exParams) \<and> \<not> truthyStr (qp_skip exParams)
          \<and> qp_count exParams \<noteq> Some ''true'' \<longrightarrow>
        fst (getUsers exLib exSemUser exCount exBig exParams) =
          respond 200 MsgOK (PUsers (projecting exSemUser qu (matching exSemUser qu (users exBig))))
      \<and> length (projecting exSemUser qu (matching exSemUser qu (users exBig)))
          = length (matching exSemUser qu (users exBig))"
    by blast
  from eu qa have qu: "qu = emptyQuery" by simp
  from c1 h(1) t have t1: "length (take 100 (tasks exBig)) \<le> 100"
    by blast
  from c4 h have "fst (getUsers exLib exSemUser exCount exBig exParams) =
          respond 200 MsgOK
            (PUsers (projecting exSemUser qu (matching exSemUser qu (users exBig))))"
    by blast
  then have t2: "fst (getUsers exLib exSemUser exCount exBig exParams)
       = respond 200 MsgOK (PUsers (users exBig))"
    by (simp only: qu m)
  then have t3: "payload (fst (getUsers exLib exSemUser exCount exBig exParams))
       = PUsers (users exBig)"
    by (simp add: respond_def)
  from h n qa qb t t1 t2 t3 show ?thesis by blast
qed

section \<open>The \<open>completed\<close> field on create\<close>
text \<open>
  C9 at the failing input. Create Task with the JSON boolean \<open>true\<close> as \<open>completed\<close>:
  \<^verbatim>\<open>req.body.completed === 'true'\<close> is false, so the task is saved as not completed
  and its id is added to the pending list of its user; Replace Task keeps the boolean.
\<close>

theorem postTask_boolean_true_stored_false:
  "completedOnCreate (JBool True) = False
   \<and> completedOnReplace (JBool True) = JBool True
   \<and> postTask exSave exDb (exTaskBody\<lparr>tb_completed := JBool True\<rparr>) =
       (respond 201 MsgTaskCreated (PTask (exT1\<lparr>tid := idT9\<rparr>)),
        [TaskSave (exT1\<lparr>tid := []\<rparr>) (exT1\<lparr>tid := idT9\<rparr>), UserAddToSet idU1 idT9])
   \<and> completed exT1 = False"
  by (simp add: postTask_def Let_def truthyStr_def orEmpty_def checkAssignedCreate_def
      userFindById_def example_ids example_lookups example_ids_distinct completed_def
      newTaskOf_def completedOnCreate_def completedOnReplace_def
      createCompensation_def exSave_def exTaskBody_def exAlice_def exT1_def)

theorem postTask_boolean_true_stored_false_witness:
  "truthyStr (tb_name (exTaskBody\<lparr>tb_completed := JBool True\<rparr>))
   \<and> truthy (tb_deadline (exTaskBody\<lparr>tb_completed := JBool True\<rparr>))
   \<and> findUser exDb idU1 = Some exAlice
   \<and> tb_assignedUserName (exTaskBody\<lparr>tb_completed := JBool True\<rparr>) = Some (uname exAlice)
   \<and> tb_completed (exTaskBody\<lparr>tb_completed := JBool True\<rparr>) = JBool True
   \<and> snd (postTask exSave exDb (exTaskBody\<lparr>tb_completed := JBool True\<rparr>)) =
       [TaskSave (exT1\<lparr>tid := []\<rparr>) (exT1\<lparr>tid := idT9\<rparr>), UserAddToSet idU1 idT9]
   \<and> completed (exT1\<lparr>tid := idT9\<rparr>) = False"
proof -
  have a: "truthyStr (tb_name (exTaskBody\<lparr>tb_completed := JBool True\<rparr>))"
    "truthy (tb_deadline (exTaskBody\<lparr>tb_completed := JBool True\<rparr>))"
    "tb_assignedUserName (exTaskBody\<lparr>tb_completed := JBool True\<rparr>) = Some (uname exAlice)"
    "tb_completed (exTaskBody\<lparr>tb_completed := JBool True\<rparr>) = JBool True"
    by (simp_all add: truthyStr_def exTaskBody_def exAlice_def)
  have b: "findUser exDb idU1 = Some exAlice"
    by (rule example_lookups)
  have c: "completed (exT1\<lparr>tid := idT9\<rparr>) = False"
    by (simp add: exT1_def completed_def)
  from postTask_boolean_true_stored_false
  have d: "snd (postTask exSave exDb (exTaskBody\<lparr>tb_completed := JBool True\<rparr>)) =
       [TaskSave (exT1\<lparr>tid := []\<rparr>) (exT1\<lparr>tid := idT9\<rparr>), UserAddToSet idU1 idT9]"
    by simp
  from a b c d show ?thesis by blast
qed


section \<open>Replace Task: the completion-change branch that adds\<close>

lemma putTask_writes_old:
  assumes "snd (putTask persist d i body) \<noteq> []"
  shows "\<exists>oldTask. findTask d i = Some oldTask \<and> \<not> completed oldTask"
  using assms
  by (auto simp: putTask_def Let_def taskFindById_def
      split: if_splits option.splits sum.splits)

lemma completionChangeOps_add_iff:
  "UserAddToSet u t' \<in> set (completionChangeOps was now ou nu t) \<longleftrightarrow>
     was \<noteq> now \<and> (nu \<noteq> [] \<or> ou \<noteq> []) \<and> \<not> truthy now
     \<and> u = (if nu \<noteq> [] then nu else ou) \<and> t' = t"
  by (auto simp: completionChangeOps_def Let_def)

lemma completedOnReplace_bool_or_string:
  "(\<exists>b. c = JBool b) \<or> (\<exists>s. c = JStr s) \<Longrightarrow> \<exists>b. completedOnReplace c = JBool b"
  by (auto simp: completedOnReplace_def)

lemma ex_put_completed_absent:
  "putTask exPersistTask exDb idT1 (exTaskBody\<lparr>tb_completed := JUndefined\<rparr>) =
     (respond 200 MsgTaskReplaced (PTask exT1),
      [UserPull idU1 idT1, UserAddToSet idU1 idT1, UserAddToSet idU1 idT1,
       TaskOverwrite idT1 (exTaskBody\<lparr>tb_completed := JUndefined\<rparr>) exT1])"
  by (simp add: putTask_def Let_def truthyStr_def orEmpty_def checkAssignedReplace_def
      userFindById_def taskFindById_def example_ids example_lookups example_ids_distinct
      replacementOf_def completedOnReplace_def userChangeOps_def strictlyDiffer_def
      completionChangeOps_def completed_def exPersistTask_def exTaskBody_def exAlice_def
      exT1_def)

text \<open>
  Unassigning \<open>idT1\<close> with \<open>completed\<close> absent from the body: the user change pulls the
  task from the pending list of \<open>idU1\<close>, the completion change adds it again, and the
  task is stored without a user.
\<close>

lemma ex_put_unassign_completed_absent:
  "putTask exPersistTask exDb idT1
     (exTaskBody\<lparr>tb_completed := JUndefined, tb_assignedUser := None,
                 tb_assignedUserName := None\<rparr>) =
     (respond 200 MsgTaskReplaced
        (PTask (exT1\<lparr>assignedUser := [], assignedUserName := ''unassigned''\<rparr>)),
      [UserPull idU1 idT1, UserAddToSet idU1 idT1,
       TaskOverwrite idT1
         (exTaskBody\<lparr>tb_completed := JUndefined, tb_assignedUser := None,
                     tb_assignedUserName := None\<rparr>)
         (exT1\<lparr>assignedUser := [], assignedUserName := ''unassigned''\<rparr>)])"
  by (simp add: putTask_def Let_def truthyStr_def orEmpty_def checkAssignedReplace_def
      userFindById_def taskFindById_def example_ids example_lookups example_ids_distinct
      replacementOf_def completedOnReplace_def userChangeOps_def strictlyDiffer_def
      completionChangeOps_def completed_def exPersistTask_def exTaskBody_def exAlice_def
      exT1_def)

text \<open>
  C10 against the code. Whenever Replace Task issues a store write, the stored task exists
  and its \<open>completed\<close> is falsy; so far the claim. But the completion-change step
  compares the raw values with \<^verbatim>\<open>!==\<close>: it adds the task id to the pending list of the
  relevant user exactly when the stored \<open>completed\<close> and the post-image \<open>completed\<close> are
  not strictly equal, some user id is non-empty and the post-image value is falsy. With
  a stored boolean \<open>false\<close> and a boolean or string in the body this never happens; with
  \<open>completed\<close> absent from the body (or null, or 0) it does: the branch commented
  "Task is no longer complete" runs for a task that was never complete.
\<close>

theorem putTask_completion_change_add:
  assumes w: "snd (putTask persist d i body) \<noteq> []"
  shows "\<exists>oldTask.
           findTask d i = Some oldTask \<and> \<not> completed oldTask
         \<and> (\<forall>u t. UserAddToSet u t \<in> set (completionChangeOps (completedRaw oldTask)
                        (completedOnReplace (tb_completed body)) (assignedUser oldTask)
                        (orEmpty (tb_assignedUser body)) i)
              \<longleftrightarrow> completedRaw oldTask \<noteq> completedOnReplace (tb_completed body)
                  \<and> (orEmpty (tb_assignedUser body) \<noteq> [] \<or> assignedUser oldTask \<noteq> [])
                  \<and> \<not> truthy (completedOnReplace (tb_completed body))
                  \<and> u = (if orEmpty (tb_assignedUser body) \<noteq> []
                         then orEmpty (tb_assignedUser body) else assignedUser oldTask)
                  \<and> t = i)
         \<and> (completedRaw oldTask = JBool False
              \<and> ((\<exists>b. tb_completed body = JBool b) \<or> (\<exists>s. tb_completed body = JStr s)) \<longrightarrow>
              (\<forall>u t. UserAddToSet u t \<notin> set (completionChangeOps (completedRaw oldTask)
                        (completedOnReplace (tb_completed body)) (assignedUser oldTask)
                        (orEmpty (tb_assignedUser body)) i)))"
proof -
  from putTask_writes_old [OF w] obtain oldTask where
    old: "findTask d i = Some oldTask" and nc: "\<not> completed oldTask" by blast
  have b: "\<forall>u t. UserAddToSet u t \<in> set (completionChangeOps (completedRaw oldTask)
                        (completedOnReplace (tb_completed body)) (assignedUser oldTask)
                        (orEmpty (tb_assignedUser body)) i)
              \<longleftrightarrow> completedRaw oldTask \<noteq> completedOnReplace (tb_completed body)
                  \<and> (orEmpty (tb_assignedUser body) \<noteq> [] \<or> assignedUser oldTask \<noteq> [])
                  \<and> \<not> truthy (completedOnReplace (tb_completed body))
                  \<and> u = (if orEmpty (tb_assignedUser body) \<noteq> []
                         then orEmpty (tb_assignedUser body) else assignedUser oldTask)
                  \<and> t = i"
    by (simp only: completionChangeOps_add_iff) blast
  have a: "completedRaw oldTask = JBool False
              \<and> ((\<exists>b. tb_completed body = JBool b) \<or> (\<exists>s. tb_completed body = JStr s)) \<longrightarrow>
              (\<forall>u t. UserAddToSet u t \<notin> set (completionChangeOps (completedRaw oldTask)
                        (completedOnReplace (tb_completed body)) (assignedUser oldTask)
                        (orEmpty (tb_assignedUser body)) i))"
  proof
    assume h: "completedRaw oldTask = JBool False
              \<and> ((\<exists>b. tb_completed body = JBool b) \<or> (\<exists>s. tb_completed body = JStr s))"
    then obtain b where nb: "completedOnReplace (tb_completed body) = JBool b"
      using completedOnReplace_bool_or_string by blast
    from h nb show "\<forall>u t. UserAddToSet u t \<notin> set (completionChangeOps (completedRaw oldTask)
                        (completedOnReplace (tb_completed body)) (assignedUser oldTask)
                        (orEmpty (tb_assignedUser body)) i)"
      by (cases b) (simp_all add: completionChangeOps_add_iff)
  qed
  from old nc a b show ?thesis by blast
qed

text \<open>
  The failing input: PUT of \<open>idT1\<close> (stored with \<open>completed = false\<close>, assigned to
  \<open>idU1\<close>) with \<open>completed\<close> absent from the body. \<^verbatim>\<open>false !== undefined\<close> holds and the
  adding branch of the completion change runs. With the same user in the body the writes
  are pull, add, add, overwrite; with no user in the body the task ends up unassigned
  while \<open>idU1\<close> still lists it as pending.
\<close>

theorem putTask_completion_change_add_witness:
  "snd (putTask exPersistTask exDb idT1 (exTaskBody\<lparr>tb_completed := JUndefined\<rparr>)) \<noteq> []
   \<and> findTask exDb idT1 = Some exT1 \<and> completedRaw exT1 = JBool False \<and> \<not> completed exT1
   \<and> completionChangeOps (completedRaw exT1) (completedOnReplace JUndefined) (assignedUser exT1)
        idU1 idT1 = [UserAddToSet idU1 idT1]
   \<and> UserAddToSet idU1 idT1 \<in> set (completionChangeOps (completedRaw exT1)
        (completedOnReplace (tb_completed (exTaskBody\<lparr>tb_completed := JUndefined\<rparr>)))
        (assignedUser exT1)
        (orEmpty (tb_assignedUser (exTaskBody\<lparr>tb_completed := JUndefined\<rparr>))) idT1)
   \<and> putTask exPersistTask exDb idT1 (exTaskBody\<lparr>tb_completed := JUndefined\<rparr>) =
       (respond 200 MsgTaskReplaced (PTask exT1),
        [UserPull idU1 idT1, UserAddToSet idU1 idT1, UserAddToSet idU1 idT1,
         TaskOverwrite idT1 (exTaskBody\<lparr>tb_completed := JUndefined\<rparr>) exT1])
   \<and> snd (putTask exPersistTask exDb idT1
        (exTaskBody\<lparr>tb_completed := JUndefined, tb_assignedUser := None,
                    tb_assignedUserName := None\<rparr>)) =
       [UserPull idU1 idT1, UserAddToSet idU1 idT1,
        TaskOverwrite idT1
          (exTaskBody\<lparr>tb_completed := JUndefined, tb_assignedUser := None,
                      tb_assignedUserName := None\<rparr>)
          (exT1\<lparr>assignedUser := [], assignedUserName := ''unassigned''\<rparr>)]
   \<and> map pendingTasks (users (runOps (snd (putTask exPersistTask exDb idT1
        (exTaskBody\<lparr>tb_completed := JUndefined, tb_assignedUser := None,
                    tb_assignedUserName := None\<rparr>))) exDb)) = [[idT1], []]
   \<and> map assignedUser (tasks (runOps (snd (putTask exPersistTask exDb idT1
        (exTaskBody\<lparr>tb_completed := JUndefined, tb_assignedUser := None,
                    tb_assignedUserName := None\<rparr>))) exDb)) = [[], []]"
proof -
  let ?b = "exTaskBody\<lparr>tb_completed := JUndefined\<rparr>"
  let ?c = "exTaskBody\<lparr>tb_completed := JUndefined, tb_assignedUser := None,
                       tb_assignedUserName := None\<rparr>"
  have h1: "snd (putTask exPersistTask exDb idT1 ?b) \<noteq> []"
    by (simp only: ex_put_completed_absent snd_conv) simp
  have h2: "findTask exDb idT1 = Some exT1" by (rule example_lookups)
  have h3: "completedRaw exT1 = JBool False" "\<not> completed exT1"
    by (simp_all add: exT1_def completed_def)
  have h4: "completionChangeOps (completedRaw exT1) (completedOnReplace JUndefined)
              (assignedUser exT1) idU1 idT1 = [UserAddToSet idU1 idT1]"
    by (simp add: completionChangeOps_def completedOnReplace_def exT1_def example_ids_distinct)
  have h5: "putTask exPersistTask exDb idT1 ?b =
       (respond 200 MsgTaskReplaced (PTask exT1),
        [UserPull idU1 idT1, UserAddToSet idU1 idT1, UserAddToSet idU1 idT1,
         TaskOverwrite idT1 ?b exT1])"
    by (rule ex_put_completed_absent)
  have h6: "snd (putTask exPersistTask exDb idT1 ?c) =
       [UserPull idU1 idT1, UserAddToSet idU1 idT1,
        TaskOverwrite idT1 ?c (exT1\<lparr>assignedUser := [], assignedUserName := ''unassigned''\<rparr>)]"
    by (simp only: ex_put_unassign_completed_absent snd_conv)
  have h7: "map pendingTasks (users (runOps (snd (putTask exPersistTask exDb idT1 ?c)) exDb))
              = [[idT1], []]"
    unfolding h6
    by (simp add: runOps_def pull_def addToSet_def exDb_def exAlice_def
        exBob_def example_ids_distinct)
  have h8: "map assignedUser (tasks (runOps (snd (putTask exPersistTask exDb idT1 ?c)) exDb))
              = [[], []]"
    unfolding h6
    by (simp add: runOps_def exDb_def exT1_def exT2_def example_ids_distinct)
  from putTask_completion_change_add [OF h1] h2
  have h9: "UserAddToSet idU1 idT1 \<in> set (completionChangeOps (completedRaw exT1)
        (completedOnReplace (tb_completed ?b)) (assignedUser exT1)
        (orEmpty (tb_assignedUser ?b)) idT1)"
    by (simp add: exT1_def exTaskBody_def completedOnReplace_def orEmpty_def
        example_ids_distinct)
  from h1 h2 h3 h4 h5 h6 h7 h8 h9 show ?thesis by blast
qed

end
